theory Spec2Isabelle
  imports Main "HOL-Library.AList"
begin

section \<open>Python values, strings and exceptions\<close>

text \<open>
  The three scripts are dynamically typed: an identifier may be the integer \<open>1\<close> when
  an entity is built and the string \<open>'1'\<close> when it is read back. The fields of an
  entity are therefore values of a small universe of Python objects: integers, strings and
  \<open>None\<close> (what \<open>Element.text\<close> and \<open>Element.get\<close> return when nothing is there).
  Two values compare equal under Python's \<open>==\<close> exactly when they are equal here; an
  integer never equals a string.

  A Python \<open>str\<close> is a list of characters, a character standing for the code point of
  the same number, U+0000 to U+00FF. Python integers are unbounded (the interpreter's
  configurable limit on the length of a decimal literal is not part of the model). Files
  opened in text mode use UTF-8, the default encoding of the platform taken here, in
  which every such character can be written and read.
\<close>

datatype pyval = PInt int | PStr string | PNone

datatype error =
  ValueError | AttributeError | StopIteration | TypeError | ParseError | ExpatError

subsection \<open>\<open>str(n)\<close> for integers\<close>

definition digit_char :: "nat \<Rightarrow> char" where
  "digit_char d = char_of (48 + d)"

function str_nat :: "nat \<Rightarrow> string" where
  "str_nat n = (if n < 10 then [digit_char n] else str_nat (n div 10) @ [digit_char (n mod 10)])"
  by pat_completeness auto
termination
  by (relation "measure (\<lambda>n. n)") auto

declare str_nat.simps [simp del]

definition str_int :: "int \<Rightarrow> string" where
  "str_int i = (if i < 0 then CHR ''-'' # str_nat (nat (- i)) else str_nat (nat i))"

text \<open>\<open>str(v)\<close>, which is also what an f-string prints for \<open>{v}\<close>.\<close>

fun py_str :: "pyval \<Rightarrow> string" where
  "py_str (PInt i) = str_int i"
| "py_str (PStr s) = s"
| "py_str PNone = ''None''"

subsection \<open>\<open>str.isdigit\<close> and \<open>int(s)\<close>\<close>

text \<open>
  \<open>s.isdigit()\<close> holds when \<open>s\<close> is not empty and each of its characters has the Unicode
  numeric type Digit or Decimal. Below U+0100 these are the ten decimal digits
  \<open>0\<close> to \<open>9\<close> (48 to 57) and the superscripts U+00B2, U+00B3 and U+00B9 (178, 179,
  185). \<open>int(s)\<close> accepts decimal digits only and raises \<open>ValueError\<close> on a superscript.
\<close>

definition is_decimal_char :: "char \<Rightarrow> bool" where
  "is_decimal_char c = (48 \<le> (of_char c :: nat) \<and> (of_char c :: nat) \<le> 57)"

definition is_digit_char :: "char \<Rightarrow> bool" where
  "is_digit_char c =
     (is_decimal_char c \<or> (of_char c :: nat) = 178 \<or> (of_char c :: nat) = 179
        \<or> (of_char c :: nat) = 185)"

definition isdigit :: "string \<Rightarrow> bool" where
  "isdigit s = (s \<noteq> [] \<and> list_all is_digit_char s)"

definition isdecimal :: "string \<Rightarrow> bool" where
  "isdecimal s = (s \<noteq> [] \<and> list_all is_decimal_char s)"

definition decimal_value :: "string \<Rightarrow> int" where
  "decimal_value s = foldl (\<lambda>acc c. 10 * acc + (int (of_char c) - 48)) 0 s"

text \<open>
  \<open>int(s)\<close> on a string for which \<open>s.isdigit()\<close> holds, the only place the scripts call
  it: no sign, blank or underscore can occur there.
\<close>

definition py_int :: "string \<Rightarrow> error + int" where
  "py_int s = (if isdecimal s then Inr (decimal_value s) else Inl ValueError)"

section \<open>The entity classes\<close>

text \<open>
  \<open>Entity\<close> is the base class of all three scripts, \<open>Vehicle\<close> and \<open>Pedestrian\<close> are
  the subclasses of \<open>principes_1_2.py\<close> and \<open>principles_345.py\<close>, \<open>LightStateAction\<close> the
  subclass of \<open>five_principles.py\<close>. The constructor of the datatype is the class of the
  object, which is what \<open>isinstance\<close> tests. Two entities are equal when they have the same
  class and equal fields.
\<close>

datatype entity =
    Entity (entity_id: pyval) (name: pyval)
  | Vehicle (entity_id: pyval) (name: pyval) (model: pyval)
  | Pedestrian (entity_id: pyval) (name: pyval) (age: pyval)
  | LightStateAction (entity_id: pyval) (name: pyval) (user_defined_light_type: pyval)

text \<open>
  \<open>Entity.to_csv_row\<close>, which the subclasses reach through \<open>super()\<close>, and the method
  each class ends up with.
\<close>

definition Entity_to_csv_row :: "pyval \<Rightarrow> pyval \<Rightarrow> pyval list" where
  "Entity_to_csv_row i n = [i, n]"

fun to_csv_row :: "entity \<Rightarrow> pyval list" where
  "to_csv_row (Entity i n) = Entity_to_csv_row i n"
| "to_csv_row (Vehicle i n m) = Entity_to_csv_row i n @ [m]"
| "to_csv_row (Pedestrian i n a) = Entity_to_csv_row i n @ [a]"
| "to_csv_row (LightStateAction i n t) = Entity_to_csv_row i n @ [t]"

section \<open>CSV files\<close>

text \<open>
  A CSV file is the list of its rows, a row the list of its fields, as \<open>csv.writer\<close>
  stores them in a file opened with \<open>newline=''\<close>: \<open>writerow\<close> stores a string as
  it is (quoted where needed), \<open>None\<close> as the empty field and anything else as its
  \<open>str\<close>. The reader returns every field as a string (its configurable limit on the
  length of a field is not part of the model).
\<close>

type_synonym csv_file = "string list list"

fun csv_field :: "pyval \<Rightarrow> string" where
  "csv_field PNone = []"
| "csv_field v = py_str v"

definition writerow :: "csv_file \<Rightarrow> pyval list \<Rightarrow> csv_file" where
  "writerow file row = file @ [map csv_field row]"

text \<open>\<open>CSVHandler.save_entities_to_csv\<close>: the file is opened for writing, so it starts empty.\<close>

definition save_entities_to_csv :: "entity list \<Rightarrow> csv_file" where
  "save_entities_to_csv entities =
     foldl (\<lambda>file e. writerow file (to_csv_row e))
       (writerow [] [PStr ''Entity ID'', PStr ''Name'', PStr ''Model/Age'']) entities"

text \<open>
  The body of the loop of \<open>read_entities_from_csv\<close>: the unpacking of the row into three
  names raises \<open>ValueError\<close> unless the row has three fields.
\<close>

fun read_row :: "string list \<Rightarrow> error + entity" where
  "read_row [ident, nm, attribute] =
     (if isdigit attribute then
        (case py_int attribute of
           Inl e \<Rightarrow> Inl e
         | Inr n \<Rightarrow> Inr (Pedestrian (PStr ident) (PStr nm) (PInt n)))
      else Inr (Vehicle (PStr ident) (PStr nm) (PStr attribute)))"
| "read_row row = Inl ValueError"

fun read_rows :: "string list list \<Rightarrow> entity list \<Rightarrow> error + entity list" where
  "read_rows [] entities = Inr entities"
| "read_rows (row # rows) entities =
     (case read_row row of
        Inl e \<Rightarrow> Inl e
      | Inr ent \<Rightarrow> read_rows rows (entities @ [ent]))"

text \<open>
  \<open>read_entities_from_csv\<close> opens the file with \<open>mode='r'\<close> and without
  \<open>newline=''\<close>. Python then translates line endings before the reader sees the text:
  a carriage return followed by a line feed, and a carriage return alone, both become a
  line feed, also inside a quoted field. \<open>open_r\<close> gives the rows the reader returns.
\<close>

fun translate_newlines :: "string \<Rightarrow> string" where
  "translate_newlines [] = []"
| "translate_newlines [c] = (if c = CHR 0x0D then [CHR 0x0A] else [c])"
| "translate_newlines (c # d # cs) =
     (if c = CHR 0x0D then
        (if d = CHR 0x0A then CHR 0x0A # translate_newlines cs
         else CHR 0x0A # translate_newlines (d # cs))
      else c # translate_newlines (d # cs))"

definition open_r :: "csv_file \<Rightarrow> string list list" where
  "open_r file = map (map translate_newlines) file"

text \<open>\<open>next(reader)\<close> raises \<open>StopIteration\<close> on a file without a first row.\<close>

definition read_entities_from_csv :: "csv_file \<Rightarrow> error + entity list" where
  "read_entities_from_csv file =
     (case open_r file of
        [] \<Rightarrow> Inl StopIteration
      | header # rows \<Rightarrow> read_rows rows [])"

text \<open>\<open>CSVHandler.save\<close> of \<open>five_principles.py\<close> and of \<open>principles_345.py\<close>.\<close>

definition CSVHandler_save_light :: "entity \<Rightarrow> csv_file" where
  "CSVHandler_save_light e =
     writerow (writerow [] [PStr ''Entity ID'', PStr ''Name'', PStr ''UserDefinedLightType''])
       (to_csv_row e)"

definition CSVHandler_save :: "entity \<Rightarrow> csv_file" where
  "CSVHandler_save e =
     writerow (writerow [] [PStr ''Entity ID'', PStr ''Name'', PStr ''Model/Age''])
       (to_csv_row e)"

section \<open>XML documents\<close>

text \<open>
  An \<open>xml.etree.ElementTree.Element\<close> in memory: tag, attribute dictionary, text and
  children. The text and the attribute values are whatever objects were assigned.
\<close>

datatype element =
  Element (tag: string) (attrib: "(string \<times> pyval) list") (elem_text: pyval)
    (children: "element list")

text \<open>\<open>ET.SubElement(parent, ...)\<close> appends the new element to the children of its parent.\<close>

fun SubElement :: "element \<Rightarrow> element \<Rightarrow> element" where
  "SubElement (Element t a x cs) c = Element t a x (cs @ [c])"

text \<open>\<open>elem.set(key, value)\<close> and \<open>elem.get(key)\<close>.\<close>

fun set_attrib :: "element \<Rightarrow> string \<Rightarrow> pyval \<Rightarrow> element" where
  "set_attrib (Element t a x cs) k v = Element t (AList.update k v a) x cs"

definition get_attrib :: "element \<Rightarrow> string \<Rightarrow> pyval" where
  "get_attrib el k = (case map_of (attrib el) k of None \<Rightarrow> PNone | Some v \<Rightarrow> v)"

text \<open>\<open>elem.find(t)\<close>: the first child with tag \<open>t\<close>, or \<open>None\<close>.\<close>

definition find_child :: "string \<Rightarrow> element \<Rightarrow> element option" where
  "find_child t el = List.find (\<lambda>c. tag c = t) (children el)"

text \<open>
  The elements at all levels beneath an element, in document order; \<open>findall('.//t')\<close>
  keeps those with tag \<open>t\<close> and \<open>find('.//t')\<close> returns the first of them.
\<close>

fun descendants :: "element \<Rightarrow> element list" where
  "descendants (Element t a x cs) = concat (map (\<lambda>c. c # descendants c) cs)"

definition findall_desc :: "string \<Rightarrow> element \<Rightarrow> element list" where
  "findall_desc t el = filter (\<lambda>c. tag c = t) (descendants el)"

definition find_desc :: "string \<Rightarrow> element \<Rightarrow> element option" where
  "find_desc t el = List.find (\<lambda>c. tag c = t) (descendants el)"

subsection \<open>Files\<close>

text \<open>
  An XML file is taken for what a parser makes of it: either the text is not well-formed
  and \<open>ET.parse\<close> raises \<open>ParseError\<close>, or it is the document whose root \<open>ET.parse\<close>
  returns. The white space that pretty-printing puts between elements is left out: no
  parser of the scripts reads the text of an element that has children.
\<close>

datatype xml_file = Malformed | Document element

fun ET_parse :: "xml_file \<Rightarrow> error + element" where
  "ET_parse Malformed = Inl ParseError"
| "ET_parse (Document root) = Inr root"

text \<open>
  Serialising (\<open>tree.write\<close>, \<open>ET.tostring\<close>) raises \<open>TypeError\<close> on an attribute
  value that is not a string and on a text that is neither a string nor false (\<open>None\<close>,
  \<open>''\<close> and \<open>0\<close> are false, and a false text is not written at all).
\<close>

fun text_serializable :: "pyval \<Rightarrow> bool" where
  "text_serializable (PInt i) = (i = 0)"
| "text_serializable (PStr s) = True"
| "text_serializable PNone = True"

fun value_serializable :: "pyval \<Rightarrow> bool" where
  "value_serializable (PStr s) = True"
| "value_serializable v = False"

fun serializable :: "element \<Rightarrow> bool" where
  "serializable (Element t a x cs) =
     (text_serializable x \<and> list_all (\<lambda>kv. value_serializable (snd kv)) a
        \<and> list_all serializable cs)"

text \<open>
  The characters XML allows, below U+0100: everything from U+0020 on, and tab, line feed
  and carriage return. The writers emit any other character as it is, and the parsers
  (\<open>ET.parse\<close>, \<open>minidom.parseString\<close>) reject the text that holds one.
\<close>

definition xml_char :: "char \<Rightarrow> bool" where
  "xml_char c =
     (32 \<le> (of_char c :: nat) \<or> (of_char c :: nat) = 9 \<or> (of_char c :: nat) = 10
        \<or> (of_char c :: nat) = 13)"

fun xml_chars_value :: "pyval \<Rightarrow> bool" where
  "xml_chars_value (PStr s) = list_all xml_char s"
| "xml_chars_value v = True"

fun xml_chars :: "element \<Rightarrow> bool" where
  "xml_chars (Element t a x cs) =
     (xml_chars_value x \<and> list_all (\<lambda>kv. xml_chars_value (snd kv)) a
        \<and> list_all xml_chars cs)"

text \<open>
  What a parser returns for a text that was written: nothing (\<open>None\<close>) when the text was
  false, and otherwise the string with its line endings normalised, a carriage return
  (with the line feed after it, if any) becoming a line feed.
\<close>

fun read_text :: "pyval \<Rightarrow> pyval" where
  "read_text (PStr s) = (if s = [] then PNone else PStr (translate_newlines s))"
| "read_text v = PNone"

text \<open>
  \<open>tree.write\<close> writes tab, line feed and carriage return in an attribute value as
  character references, so the value is read back as it was.
\<close>

fun read_written :: "element \<Rightarrow> element" where
  "read_written (Element t a x cs) = Element t a (read_text x) (map read_written cs)"

definition tree_write :: "element \<Rightarrow> error + xml_file" where
  "tree_write root =
     (if \<not> serializable root then Inl TypeError
      else if xml_chars root then Inr (Document (read_written root))
      else Inr Malformed)"

text \<open>
  \<open>minidom.parseString(ET.tostring(root)).toprettyxml(...)\<close>, written to the file:
  \<open>parseString\<close> raises \<open>ExpatError\<close> on a character XML does not allow, and
  \<open>toprettyxml\<close> writes tab, line feed and carriage return in an attribute value as they
  are, which a parser reads as spaces (after the normalisation of line endings).
\<close>

definition attribute_spaces :: "string \<Rightarrow> string" where
  "attribute_spaces s =
     map (\<lambda>c. if c = CHR 0x09 \<or> c = CHR 0x0A then CHR 0x20 else c) (translate_newlines s)"

fun read_pretty_value :: "pyval \<Rightarrow> pyval" where
  "read_pretty_value (PStr s) = PStr (attribute_spaces s)"
| "read_pretty_value v = v"

fun read_pretty :: "element \<Rightarrow> element" where
  "read_pretty (Element t a x cs) =
     Element t (map (\<lambda>kv. (fst kv, read_pretty_value (snd kv))) a) (read_text x)
       (map read_pretty cs)"

definition write_pretty :: "element \<Rightarrow> error + xml_file" where
  "write_pretty root =
     (if \<not> serializable root then Inl TypeError
      else if xml_chars root then Inr (Document (read_pretty root))
      else Inl ExpatError)"

subsection \<open>Encoding\<close>

text \<open>\<open>to_xml_element\<close> of \<open>principles_345.py\<close> and \<open>five_principles.py\<close>.\<close>

definition Entity_to_xml_element :: "pyval \<Rightarrow> pyval \<Rightarrow> element" where
  "Entity_to_xml_element i n =
     SubElement (Element ''Entity'' [(''id'', PStr (py_str i))] PNone [])
       (Element ''Name'' [] n [])"

fun to_xml_element :: "entity \<Rightarrow> element" where
  "to_xml_element (Entity i n) = Entity_to_xml_element i n"
| "to_xml_element (Vehicle i n m) =
     SubElement (Entity_to_xml_element i n) (Element ''Model'' [] m [])"
| "to_xml_element (Pedestrian i n a) =
     SubElement (Entity_to_xml_element i n) (Element ''Age'' [] (PStr (py_str a)) [])"
| "to_xml_element (LightStateAction i n t) =
     SubElement (Entity_to_xml_element i n)
       (Element ''LightStateAction'' [] PNone
          [Element ''LightType'' [] PNone
             [set_attrib (Element ''UserDefinedLight'' [] PNone [])
                ''userDefinedLightType'' t]])"

text \<open>
  \<open>XMLHandler.save\<close> of \<open>principles_345.py\<close> and \<open>five_principles.py\<close>. The result is
  the exception raised or the file written. (When \<open>tree.write\<close> raises, what is left on
  disk is the unfinished text; the script ends there and nothing reads it.)
\<close>

definition XMLHandler_save :: "entity \<Rightarrow> error + xml_file" where
  "XMLHandler_save e =
     tree_write (SubElement (Element ''Entities'' [] PNone []) (to_xml_element e))"

text \<open>
  \<open>XMLHandler.create_sample_xml\<close> of \<open>principes_1_2.py\<close>: the element of one entity, chosen
  by \<open>isinstance\<close>, and the loop that hangs the elements under the root; then the file is
  written by \<open>tree.write\<close> and written again, pretty-printed through \<open>minidom\<close>.
\<close>

fun sample_entity_element :: "entity \<Rightarrow> element" where
  "sample_entity_element (Vehicle i n m) =
     SubElement
       (SubElement (Element ''Entity'' [(''id'', PStr (py_str i))] PNone [])
          (Element ''Name'' [] n []))
       (Element ''Model'' [] m [])"
| "sample_entity_element (Pedestrian i n a) =
     SubElement
       (SubElement (Element ''Entity'' [(''id'', PStr (py_str i))] PNone [])
          (Element ''Name'' [] n []))
       (Element ''Age'' [] (PStr (py_str a)) [])"
| "sample_entity_element e =
     SubElement (Element ''Entity'' [(''id'', PStr (py_str (entity_id e)))] PNone [])
       (Element ''Name'' [] (name e) [])"

definition create_sample_xml :: "entity list \<Rightarrow> error + xml_file" where
  "create_sample_xml entities =
     (let root = foldl (\<lambda>root e. SubElement root (sample_entity_element e))
                   (Element ''Entities'' [] PNone []) entities
      in case tree_write root of
           Inl e \<Rightarrow> Inl e
         | Inr written \<Rightarrow> write_pretty root)"

subsection \<open>Decoding\<close>

text \<open>
  The body of the loop of \<open>parse_entities_from_xml\<close>. \<open>entity.find('Name').text\<close> and
  \<open>entity.find('Age').text\<close> raise \<open>AttributeError\<close> when \<open>find\<close> returns \<open>None\<close>.
\<close>

definition parse_entity :: "element \<Rightarrow> error + entity" where
  "parse_entity el =
     (let ident = get_attrib el ''id'' in
      case find_child ''Name'' el of
        None \<Rightarrow> Inl AttributeError
      | Some name_el \<Rightarrow>
          (case find_child ''Model'' el of
             Some model_el \<Rightarrow> Inr (Vehicle ident (elem_text name_el) (elem_text model_el))
           | None \<Rightarrow>
               (case find_child ''Age'' el of
                  None \<Rightarrow> Inl AttributeError
                | Some age_el \<Rightarrow>
                    Inr (Pedestrian ident (elem_text name_el) (elem_text age_el)))))"

fun parse_loop :: "element list \<Rightarrow> entity list \<Rightarrow> error + entity list" where
  "parse_loop [] parsed_entities = Inr parsed_entities"
| "parse_loop (el # els) parsed_entities =
     (case parse_entity el of
        Inl e \<Rightarrow> Inl e
      | Inr ent \<Rightarrow> parse_loop els (parsed_entities @ [ent]))"

definition parse_entities_from_xml :: "xml_file \<Rightarrow> error + entity list" where
  "parse_entities_from_xml file =
     (case ET_parse file of
        Inl e \<Rightarrow> Inl e
      | Inr root \<Rightarrow> parse_loop (findall_desc ''Entity'' root) [])"

text \<open>\<open>parse_xml\<close> of \<open>five_principles.py\<close>.\<close>

definition parse_action :: "element \<Rightarrow> error + entity" where
  "parse_action action =
     (case find_desc ''UserDefinedLight'' action of
        None \<Rightarrow> Inl AttributeError
      | Some light \<Rightarrow>
          Inr (LightStateAction (PInt 1) (PStr ''LightStateAction'')
                 (get_attrib light ''userDefinedLightType'')))"

fun parse_xml_loop :: "element list \<Rightarrow> entity list \<Rightarrow> error + entity list" where
  "parse_xml_loop [] parsed_entities = Inr parsed_entities"
| "parse_xml_loop (action # actions) parsed_entities =
     (case parse_action action of
        Inl e \<Rightarrow> Inl e
      | Inr ent \<Rightarrow> parse_xml_loop actions (parsed_entities @ [ent]))"

definition parse_xml :: "xml_file \<Rightarrow> error + entity list" where
  "parse_xml file =
     (case ET_parse file of
        Inl e \<Rightarrow> Inl e
      | Inr root \<Rightarrow> parse_xml_loop (findall_desc ''PrivateAction'' root) [])"

section \<open>The comparator\<close>

text \<open>
  \<open>EntityComparator.compare_entities\<close> prints one line per match; the model returns the
  lines printed, in order.
\<close>

definition match_line :: "entity \<Rightarrow> string" where
  "match_line e = ''Match found: '' @ py_str (name e) @ '' with ID '' @ py_str (entity_id e)"

definition compare_entities :: "entity list \<Rightarrow> entity list \<Rightarrow> string list" where
  "compare_entities csv_entities xml_entities =
     foldl (\<lambda>out csv_entity.
        foldl (\<lambda>out xml_entity.
           if entity_id csv_entity = entity_id xml_entity \<and> name csv_entity = name xml_entity
           then out @ [match_line csv_entity] else out) out xml_entities)
       [] csv_entities"

section \<open>Saving and reading back\<close>

text \<open>
  A handler writes the file at its path and later reads the file at the same path. The
  functions below are a save followed by a read of what was saved; an exception raised
  by the save ends the run.
\<close>

definition csv_read_back :: "entity list \<Rightarrow> error + entity list" where
  "csv_read_back es = read_entities_from_csv (save_entities_to_csv es)"

definition xml_read_back :: "entity list \<Rightarrow> error + entity list" where
  "xml_read_back es =
     (case create_sample_xml es of
        Inl e \<Rightarrow> Inl e
      | Inr file \<Rightarrow> parse_entities_from_xml file)"


definition saved_parse_xml :: "entity \<Rightarrow> error + entity list" where
  "saved_parse_xml e =
     (case XMLHandler_save e of
        Inl x \<Rightarrow> Inl x
      | Inr file \<Rightarrow> parse_xml file)"

text \<open>
  Strings that come back as they were written: \<open>keeps_field\<close> for a field of a CSV file
  (no carriage return), \<open>keeps_text\<close> for the text of an element (not empty, allowed
  characters, no carriage return) and \<open>keeps_attribute\<close> for an attribute value of a
  pretty-printed file (nothing below U+0020).
\<close>

definition keeps_field :: "string \<Rightarrow> bool" where
  "keeps_field s = list_all (\<lambda>c. c \<noteq> CHR 0x0D) s"


definition keeps_attribute :: "string \<Rightarrow> bool" where
  "keeps_attribute s = list_all (\<lambda>c. 32 \<le> (of_char c :: nat)) s"

section \<open>The example of \<open>principes_1_2.py\<close>\<close>

text \<open>The list the script builds, saves in both formats, reads back and compares.\<close>

definition entities :: "entity list" where
  "entities =
     [Vehicle (PInt 1) (PStr ''Car A'') (PStr ''Model X''),
      Pedestrian (PInt 2) (PStr ''John Doe'') (PInt 30),
      Vehicle (PInt 3) (PStr ''Car B'') (PStr ''Model Y''),
      Pedestrian (PInt 4) (PStr ''Jane Doe'') (PInt 25)]"

definition csv_entities :: "error + entity list" where
  "csv_entities = csv_read_back entities"

definition xml_entities :: "error + entity list" where
  "xml_entities = xml_read_back entities"

section \<open>Decimal strings\<close>

text \<open>
  \<open>str\<close> of a natural number is a non-empty string of decimal digits, and reading it
  back gives the number.
\<close>

lemma digit_char_code: "d < 10 \<Longrightarrow> (of_char (digit_char d) :: nat) = 48 + d"
  by (simp add: digit_char_def)

lemma is_decimal_digit_char: "d < 10 \<Longrightarrow> is_decimal_char (digit_char d)"
  by (simp add: is_decimal_char_def digit_char_code)

lemma str_nat_not_Nil: "str_nat n \<noteq> []"
  by (subst str_nat.simps) simp

lemma decimal_str_nat: "list_all is_decimal_char (str_nat n)"
proof (induction n rule: str_nat.induct)
  case (1 n)
  show ?case
  proof (cases "n < 10")
    case True
    then show ?thesis
      by (subst str_nat.simps) (simp add: is_decimal_digit_char)
  next
    case False
    with 1 show ?thesis
      by (subst str_nat.simps) (simp add: is_decimal_digit_char)
  qed
qed

lemma decimal_value_snoc:
  "decimal_value (s @ [c]) = 10 * decimal_value s + (int (of_char c) - 48)"
  by (simp add: decimal_value_def)

lemma decimal_value_str_nat: "decimal_value (str_nat n) = int n"
proof (induction n rule: str_nat.induct)
  case (1 n)
  show ?case
  proof (cases "n < 10")
    case True
    then show ?thesis
      by (subst str_nat.simps) (simp add: decimal_value_def digit_char_code)
  next
    case False
    then have ih: "decimal_value (str_nat (n div 10)) = int (n div 10)"
      using 1 by simp
    have "n mod 10 < 10" by simp
    then have c: "int (of_char (digit_char (n mod 10))) - 48 = int (n mod 10)"
      by (simp add: digit_char_code)
    have "decimal_value (str_nat n) = 10 * int (n div 10) + int (n mod 10)"
      using False by (subst str_nat.simps) (simp add: decimal_value_snoc ih c)
    also have "\<dots> = int n"
      by presburger
    finally show ?thesis .
  qed
qed

lemma isdecimal_str_nat: "isdecimal (str_nat n)"
  by (simp add: isdecimal_def str_nat_not_Nil decimal_str_nat)

lemma isdecimal_isdigit: "isdecimal s \<Longrightarrow> isdigit s"
  unfolding isdecimal_def isdigit_def
  by (auto simp: is_digit_char_def list_all_iff)

lemma py_int_str_int: "0 \<le> a \<Longrightarrow> py_int (str_int a) = Inr a"
  by (simp add: py_int_def str_int_def isdecimal_str_nat decimal_value_str_nat)

lemma isdigit_str_int: "0 \<le> a \<Longrightarrow> isdigit (str_int a)"
  by (simp add: str_int_def isdecimal_isdigit isdecimal_str_nat)

text \<open>The string of a negative number starts with a minus sign, which is no digit.\<close>

lemma not_isdigit_negative: "a < 0 \<Longrightarrow> \<not> isdigit (str_int a)"
  by (simp add: str_int_def isdigit_def is_digit_char_def is_decimal_char_def)

subsection \<open>Strings used in the examples\<close>

lemma str_int_examples:
  "str_int 1 = ''1''" "str_int 2 = ''2''" "str_int 30 = ''30''"
  by code_simp+

lemma decimal_value_12345: "decimal_value ''12345'' = 12345"
  by (simp add: decimal_value_def)

lemma isdecimal_12345: "isdecimal ''12345''"
  by (simp add: isdecimal_def is_decimal_char_def)

lemma isdecimal_30: "isdecimal ''30''"
  by (simp add: isdecimal_def is_decimal_char_def)

lemma decimal_value_30: "decimal_value ''30'' = 30"
  by (simp add: decimal_value_def)

lemma not_isdigit_Model_X: "\<not> isdigit ''Model X''"
  by (simp add: isdigit_def is_digit_char_def is_decimal_char_def)

text \<open>SUPERSCRIPT TWO, U+00B2, passes \<open>isdigit\<close> and is no decimal digit.\<close>

lemma superscript_two: "isdigit [CHR 0xB2] \<and> \<not> isdecimal [CHR 0xB2]"
  by (simp add: isdigit_def isdecimal_def is_digit_char_def is_decimal_char_def)

section \<open>Strings that files keep\<close>

lemma translate_keeps: "keeps_field s \<Longrightarrow> translate_newlines s = s"
  by (induction s rule: translate_newlines.induct) (simp_all add: keeps_field_def)

lemma line_feed_no_digit: "\<not> is_digit_char (CHR 0x0A)"
  by (simp add: is_digit_char_def is_decimal_char_def)

lemma carriage_return_no_digit: "\<not> is_digit_char (CHR 0x0D)"
  by (simp add: is_digit_char_def is_decimal_char_def)

lemma digits_keep: "list_all is_digit_char s \<Longrightarrow> keeps_field s"
  using carriage_return_no_digit by (auto simp: keeps_field_def list_all_iff)

lemma translated_digits:
  "list_all is_digit_char (translate_newlines s) \<Longrightarrow> list_all is_digit_char s"
proof (induction s rule: translate_newlines.induct)
  case 1
  then show ?case by simp
next
  case (2 c)
  then show ?case using line_feed_no_digit by (cases "c = CHR 0x0D") simp_all
next
  case (3 c d cs)
  show ?case
  proof (cases "c = CHR 0x0D")
    case True
    with "3.prems" show ?thesis
      using line_feed_no_digit by (cases "d = CHR 0x0A") simp_all
  next
    case False
    with "3.prems" "3.IH" show ?thesis by simp
  qed
qed

text \<open>The translation of line endings changes no digit string and makes none.\<close>

lemma isdigit_translate: "isdigit (translate_newlines s) \<longleftrightarrow> isdigit s"
proof
  assume a: "isdigit (translate_newlines s)"
  then have "list_all is_digit_char s" by (simp add: isdigit_def translated_digits)
  then have "translate_newlines s = s" by (simp add: digits_keep translate_keeps)
  with a show "isdigit s" by simp
next
  assume a: "isdigit s"
  then have "translate_newlines s = s" by (simp add: isdigit_def digits_keep translate_keeps)
  with a show "isdigit (translate_newlines s)" by simp
qed

lemma isdecimal_keeps: "isdecimal s \<Longrightarrow> keeps_field s"
  by (auto simp: isdecimal_def keeps_field_def list_all_iff is_decimal_char_def)



lemma keeps_attribute_field: "keeps_attribute s \<Longrightarrow> keeps_field s"
  by (auto simp: keeps_attribute_def keeps_field_def list_all_iff)

lemma keeps_attribute_map:
  "keeps_attribute s \<Longrightarrow>
   map (\<lambda>c. if c = CHR 0x09 \<or> c = CHR 0x0A then CHR 0x20 else c) s = s"
  by (induction s) (auto simp: keeps_attribute_def)

lemma keeps_attribute_D:
  "keeps_attribute s \<Longrightarrow> list_all xml_char s \<and> attribute_spaces s = s"
  using translate_keeps [OF keeps_attribute_field, of s] keeps_attribute_map [of s]
  by (auto simp: attribute_spaces_def keeps_attribute_def xml_char_def list_all_iff)

text \<open>The string of an integer is made of digits and a minus sign: every file keeps it.\<close>

lemma str_nat_keeps: "keeps_attribute (str_nat n)"
  using decimal_str_nat [of n]
  by (auto simp: keeps_attribute_def list_all_iff is_decimal_char_def)

lemma str_int_keeps: "keeps_attribute (str_int k)"
  using str_nat_keeps by (simp add: str_int_def keeps_attribute_def)

lemma str_int_not_Nil: "str_int k \<noteq> []"
  by (simp add: str_int_def str_nat_not_Nil)

lemma str_int_keeps_field: "keeps_field (str_int k)"
  by (rule keeps_attribute_field) (rule str_int_keeps)

section \<open>Writing CSV\<close>

lemma foldl_writerow:
  "foldl (\<lambda>file e. writerow file (g e)) rows es = rows @ map (\<lambda>e. map csv_field (g e)) es"
  by (induction es arbitrary: rows) (simp_all add: writerow_def)

lemma save_rows:
  "save_entities_to_csv es =
     [''Entity ID'', ''Name'', ''Model/Age''] # map (\<lambda>e. map csv_field (to_csv_row e)) es"
  by (simp add: save_entities_to_csv_def foldl_writerow) (simp add: writerow_def)

lemma encoded_row:
  "map csv_field (to_csv_row (Vehicle i n m)) = [csv_field i, csv_field n, csv_field m]"
  "map csv_field (to_csv_row (Pedestrian i n a)) = [csv_field i, csv_field n, csv_field a]"
  "map csv_field (to_csv_row (LightStateAction i n t)) = [csv_field i, csv_field n, csv_field t]"
  by (simp_all add: Entity_to_csv_row_def)

text \<open>The handlers that save one entity write the header and its row.\<close>

lemma CSVHandler_save_rows:
  "CSVHandler_save e = [[''Entity ID'', ''Name'', ''Model/Age''], map csv_field (to_csv_row e)]"
  "CSVHandler_save_light e =
     [[''Entity ID'', ''Name'', ''UserDefinedLightType''], map csv_field (to_csv_row e)]"
  by (simp_all add: CSVHandler_save_def CSVHandler_save_light_def writerow_def)

text \<open>
  C6. \<open>save_entities_to_csv\<close> writes the header row \<open>Entity ID, Name, Model/Age\<close> and
  then one row per entity, in the order of the input. The row of an entity is made of its
  identifier and its name followed by one more field: the model of a Vehicle, the age of a
  Pedestrian, the light type of a LightStateAction. (In the file, each field is the string
  \<open>csv_field\<close> gives for it.)
\<close>

theorem csv_rows_written:
  "save_entities_to_csv es =
     [''Entity ID'', ''Name'', ''Model/Age''] # map (\<lambda>e. map csv_field (to_csv_row e)) es
   \<and> length (save_entities_to_csv es) = 1 + length es
   \<and> to_csv_row (Vehicle i n m) = [i, n, m]
   \<and> to_csv_row (Pedestrian i n a) = [i, n, a]
   \<and> to_csv_row (LightStateAction i n t) = [i, n, t]"
  by (simp add: save_rows Entity_to_csv_row_def)

section \<open>Saving the empty collection\<close>

text \<open>
  C8. Saving the empty collection gives, for CSV, a file that holds the header row and
  nothing else, and for XML, a document whose root \<open>Entities\<close> has no children.
\<close>

theorem save_empty_collection:
  "save_entities_to_csv [] = [[''Entity ID'', ''Name'', ''Model/Age'']]
   \<and> create_sample_xml [] = Inr (Document (Element ''Entities'' [] PNone []))
   \<and> (case create_sample_xml [] of
         Inr (Document root) \<Rightarrow> children root = []
       | _ \<Rightarrow> False)"
  by (simp add: save_entities_to_csv_def writerow_def create_sample_xml_def tree_write_def
      write_pretty_def)

section \<open>Reading CSV\<close>

lemma read_row_not_digit:
  "\<not> isdigit m \<Longrightarrow> read_row [i, n, m] = Inr (Vehicle (PStr i) (PStr n) (PStr m))"
  by simp

lemma read_row_decimal:
  "isdecimal m \<Longrightarrow>
   read_row [i, n, m] = Inr (Pedestrian (PStr i) (PStr n) (PInt (decimal_value m)))"
  by (simp add: isdecimal_isdigit py_int_def)

lemma read_row_str_int:
  "0 \<le> a \<Longrightarrow> read_row [i, n, str_int a] = Inr (Pedestrian (PStr i) (PStr n) (PInt a))"
  by (simp add: isdigit_str_int py_int_str_int)

text \<open>What \<open>read_row\<close> does with a row of three fields, case by case.\<close>

lemma read_row_three_fields:
  "read_row [i, n, m] =
     (if \<not> isdigit m then Inr (Vehicle (PStr i) (PStr n) (PStr m))
      else if isdecimal m then Inr (Pedestrian (PStr i) (PStr n) (PInt (decimal_value m)))
      else Inl ValueError)"
  by (simp add: py_int_def)

lemma read_row_error: "read_row row = Inl e \<Longrightarrow> e = ValueError"
  by (cases row rule: read_row.cases)
     (auto simp: py_int_def split: if_splits sum.splits)

lemma read_row_length: "length row \<noteq> 3 \<Longrightarrow> read_row row = Inl ValueError"
  by (cases row rule: read_row.cases) auto

text \<open>An exception raised in the loop ends the call: no later row repairs it.\<close>

lemma read_rows_bad:
  "\<exists>row \<in> set rows. read_row row = Inl ValueError \<Longrightarrow> read_rows rows acc = Inl ValueError"
proof (induction rows arbitrary: acc)
  case Nil
  then show ?case by simp
next
  case (Cons r rows)
  show ?case
  proof (cases "read_row r")
    case (Inl e)
    then show ?thesis using read_row_error [OF Inl] by simp
  next
    case (Inr ent)
    with Cons.prems have "\<exists>row \<in> set rows. read_row row = Inl ValueError" by auto
    then show ?thesis using Inr Cons.IH by simp
  qed
qed

lemma read_rows_good:
  "list_all (\<lambda>r. length r = 3 \<and> (\<not> isdigit (r ! 2) \<or> isdecimal (r ! 2))) rows \<Longrightarrow>
   \<exists>es. read_rows rows acc = Inr (acc @ es) \<and> length es = length rows"
proof (induction rows arbitrary: acc)
  case Nil
  then show ?case by simp
next
  case (Cons r rows)
  from Cons.prems obtain i n m where r: "r = [i, n, m]"
    by (cases r rule: read_row.cases) auto
  from Cons.prems r have "\<not> isdigit m \<or> isdecimal m" by simp
  then obtain e where e: "read_row r = Inr e"
    unfolding r using read_row_decimal [of m i n] read_row_not_digit [of m i n] by blast
  from Cons.prems
  have "list_all (\<lambda>r. length r = 3 \<and> (\<not> isdigit (r ! 2) \<or> isdecimal (r ! 2))) rows"
    by simp
  from Cons.IH [OF this, of "acc @ [e]"]
  obtain es where "read_rows rows (acc @ [e]) = Inr ((acc @ [e]) @ es)" "length es = length rows"
    by blast
  then have "read_rows (r # rows) acc = Inr (acc @ (e # es))
      \<and> length (e # es) = length (r # rows)"
    using e by simp
  then show ?case by blast
qed

subsection \<open>Reading a file\<close>

lemma read_file:
  "read_entities_from_csv (header # rows) = read_rows (map (map translate_newlines) rows) []"
  by (simp add: read_entities_from_csv_def open_r_def)

lemma read_saved:
  "csv_read_back es =
     read_rows (map (\<lambda>e. map translate_newlines (map csv_field (to_csv_row e))) es) []"
  by (simp add: csv_read_back_def save_rows read_file comp_def del: to_csv_row.simps)

text \<open>What is read back from a file written from one Vehicle, whatever its strings.\<close>

lemma read_back_vehicle:
  "\<not> isdigit m \<Longrightarrow>
   csv_read_back [Vehicle i n (PStr m)] =
     Inr [Vehicle (PStr (translate_newlines (csv_field i)))
            (PStr (translate_newlines (csv_field n))) (PStr (translate_newlines m))]"
  by (simp add: read_saved Entity_to_csv_row_def isdigit_translate)

lemma read_back_pedestrian:
  "0 \<le> a \<Longrightarrow>
   csv_read_back [Pedestrian i n (PInt a)] =
     Inr [Pedestrian (PStr (translate_newlines (csv_field i)))
            (PStr (translate_newlines (csv_field n))) (PInt a)]"
  by (simp add: read_saved Entity_to_csv_row_def translate_keeps [OF str_int_keeps_field]
      isdigit_str_int py_int_str_int)

subsection \<open>The CSV round trip\<close>

text \<open>
  C2, as amended. An entity is read back from the CSV file with the strings that were
  written for its identifier and its name. So saving an entity to a CSV file and reading
  the file returns an entity equal to the one saved for every Vehicle whose identifier,
  name and model are strings without a carriage return, the model not satisfying
  \<open>isdigit\<close>, and for every Pedestrian whose identifier and name are such strings and
  whose age is a non-negative integer. A Vehicle with an integer identifier is read back
  with the string of that integer as identifier.
\<close>

theorem csv_round_trip:
  "(\<not> isdigit m \<and> keeps_field i \<and> keeps_field n \<and> keeps_field m \<longrightarrow>
      csv_read_back [Vehicle (PStr i) (PStr n) (PStr m)]
        = Inr [Vehicle (PStr i) (PStr n) (PStr m)])
   \<and> (0 \<le> a \<and> keeps_field i \<and> keeps_field n \<longrightarrow>
      csv_read_back [Pedestrian (PStr i) (PStr n) (PInt a)]
        = Inr [Pedestrian (PStr i) (PStr n) (PInt a)])
   \<and> (\<not> isdigit m \<and> keeps_field n \<and> keeps_field m \<longrightarrow>
      csv_read_back [Vehicle (PInt k) (PStr n) (PStr m)]
        = Inr [Vehicle (PStr (str_int k)) (PStr n) (PStr m)])"
proof (intro conjI impI)
  assume "\<not> isdigit m \<and> keeps_field i \<and> keeps_field n \<and> keeps_field m"
  then show "csv_read_back [Vehicle (PStr i) (PStr n) (PStr m)]
        = Inr [Vehicle (PStr i) (PStr n) (PStr m)]"
    by (simp add: read_back_vehicle translate_keeps)
next
  assume "0 \<le> a \<and> keeps_field i \<and> keeps_field n"
  then show "csv_read_back [Pedestrian (PStr i) (PStr n) (PInt a)]
        = Inr [Pedestrian (PStr i) (PStr n) (PInt a)]"
    by (simp add: read_back_pedestrian translate_keeps)
next
  assume "\<not> isdigit m \<and> keeps_field n \<and> keeps_field m"
  then show "csv_read_back [Vehicle (PInt k) (PStr n) (PStr m)]
        = Inr [Vehicle (PStr (str_int k)) (PStr n) (PStr m)]"
    by (simp add: read_back_vehicle translate_keeps str_int_keeps_field)
qed

text \<open>
  The theorem at a Vehicle and a Pedestrian with string identifiers, and at the first
  entity of the example list, whose identifier is the integer 1.
\<close>

theorem csv_round_trip_witness:
  "\<not> isdigit ''Model X'' \<and> (0::int) \<le> 30
   \<and> keeps_field ''1'' \<and> keeps_field ''Car A'' \<and> keeps_field ''Model X''
   \<and> csv_read_back [Vehicle (PStr ''1'') (PStr ''Car A'') (PStr ''Model X'')]
       = Inr [Vehicle (PStr ''1'') (PStr ''Car A'') (PStr ''Model X'')]
   \<and> csv_read_back [Pedestrian (PStr ''1'') (PStr ''Car A'') (PInt 30)]
       = Inr [Pedestrian (PStr ''1'') (PStr ''Car A'') (PInt 30)]
   \<and> csv_read_back [Vehicle (PInt 1) (PStr ''Car A'') (PStr ''Model X'')]
       = Inr [Vehicle (PStr ''1'') (PStr ''Car A'') (PStr ''Model X'')]"
  using csv_round_trip [of "''Model X''" "''1''" "''Car A''" 30 1]
  by (simp add: not_isdigit_Model_X keeps_field_def str_int_examples)

text \<open>
  C2, as stated, fails at the first entity of the example list of \<open>principes_1_2.py\<close>,
  \<open>Vehicle(1, 'Car A', 'Model X')\<close>: its model is no digit string, and it is read back with
  the identifier \<open>'1'\<close>, a string, in place of the integer \<open>1\<close>. It also fails at a
  Vehicle whose fields are all strings, when the name holds a carriage return: the name
  is read back with a line feed in its place.
\<close>

theorem csv_round_trip_counterexample:
  "\<not> isdigit ''Model X''
   \<and> csv_read_back [Vehicle (PInt 1) (PStr ''Car A'') (PStr ''Model X'')]
       = Inr [Vehicle (PStr ''1'') (PStr ''Car A'') (PStr ''Model X'')]
   \<and> csv_read_back [Vehicle (PInt 1) (PStr ''Car A'') (PStr ''Model X'')]
       \<noteq> Inr [Vehicle (PInt 1) (PStr ''Car A'') (PStr ''Model X'')]
   \<and> \<not> isdigit ''M''
   \<and> csv_read_back [Vehicle (PStr ''1'') (PStr [CHR ''a'', CHR 0x0D, CHR ''b'']) (PStr ''M'')]
       = Inr [Vehicle (PStr ''1'') (PStr [CHR ''a'', CHR 0x0A, CHR ''b'']) (PStr ''M'')]
   \<and> csv_read_back [Vehicle (PStr ''1'') (PStr [CHR ''a'', CHR 0x0D, CHR ''b'']) (PStr ''M'')]
       \<noteq> Inr [Vehicle (PStr ''1'') (PStr [CHR ''a'', CHR 0x0D, CHR ''b'']) (PStr ''M'')]"
proof -
  have m: "\<not> isdigit ''M''"
    by (simp add: isdigit_def is_digit_char_def is_decimal_char_def)
  show ?thesis
    using read_back_vehicle [OF not_isdigit_Model_X, of "PInt 1" "PStr ''Car A''"]
      read_back_vehicle [OF m, of "PStr ''1''" "PStr [CHR ''a'', CHR 0x0D, CHR ''b'']"]
    by (simp add: not_isdigit_Model_X m str_int_examples)
qed

subsection \<open>A model made of digits\<close>

text \<open>
  C3. A Vehicle whose model is a non-empty string of the decimal digits \<open>0\<close> to \<open>9\<close>
  is read back from its row as a Pedestrian whose age is the integer the model denotes.
\<close>

theorem digit_model_read_as_pedestrian:
  "isdecimal m \<Longrightarrow>
   read_row (map csv_field (to_csv_row (Vehicle i n (PStr m))))
     = Inr (Pedestrian (PStr (csv_field i)) (PStr (csv_field n)) (PInt (decimal_value m)))"
  using read_row_decimal [of m "csv_field i" "csv_field n"]
  by (simp only: encoded_row csv_field.simps py_str.simps)

text \<open>\<open>Vehicle(id=1, name="X", model="12345")\<close> is read back as a Pedestrian of age 12345.\<close>

theorem digit_model_read_as_pedestrian_witness:
  "isdecimal ''12345''
   \<and> read_row (map csv_field (to_csv_row (Vehicle (PInt 1) (PStr ''X'') (PStr ''12345''))))
       = Inr (Pedestrian (PStr ''1'') (PStr ''X'') (PInt 12345))"
  using digit_model_read_as_pedestrian [OF isdecimal_12345, of "PInt 1" "PStr ''X''"]
  by (simp add: isdecimal_12345 decimal_value_12345 str_int_examples del: to_csv_row.simps)

subsection \<open>Rows of three fields\<close>

text \<open>
  C9 asks that every row of three fields is decoded. The row \<open>['1', 'X', s]\<close> with \<open>s\<close>
  the one character U+00B2 has three fields; \<open>isdigit\<close> accepts its third field, \<open>int\<close>
  does not, and \<open>read_row\<close> raises \<open>ValueError\<close>.
\<close>

theorem read_row_superscript_digit:
  "length [''1'', ''X'', [CHR 0xB2]] = 3 \<and> isdigit [CHR 0xB2]
   \<and> read_row [''1'', ''X'', [CHR 0xB2]] = Inl ValueError"
  by (simp add: superscript_two py_int_def)

section \<open>Reading XML\<close>

lemma parse_entity_error: "parse_entity el = Inl e \<Longrightarrow> e = AttributeError"
  by (auto simp: parse_entity_def Let_def split: option.splits)

lemma parse_entity_missing:
  "find_child ''Name'' el = None \<or> (find_child ''Model'' el = None \<and> find_child ''Age'' el = None)
   \<Longrightarrow> parse_entity el = Inl AttributeError"
  by (auto simp: parse_entity_def Let_def split: option.splits)

lemma parse_entity_present:
  "find_child ''Name'' el \<noteq> None \<Longrightarrow>
   find_child ''Model'' el \<noteq> None \<or> find_child ''Age'' el \<noteq> None \<Longrightarrow>
   \<exists>e. parse_entity el = Inr e"
  by (auto simp: parse_entity_def Let_def split: option.splits)

lemma parse_loop_bad:
  "\<exists>el \<in> set els. parse_entity el = Inl AttributeError \<Longrightarrow>
   parse_loop els acc = Inl AttributeError"
proof (induction els arbitrary: acc)
  case Nil
  then show ?case by simp
next
  case (Cons r els)
  show ?case
  proof (cases "parse_entity r")
    case (Inl e)
    then show ?thesis using parse_entity_error [OF Inl] by simp
  next
    case (Inr ent)
    with Cons.prems have "\<exists>el \<in> set els. parse_entity el = Inl AttributeError" by auto
    then show ?thesis using Inr Cons.IH by simp
  qed
qed

text \<open>
  For a Vehicle, a Pedestrian and a bare Entity, \<open>create_sample_xml\<close> builds the element
  that \<open>to_xml_element\<close> builds.
\<close>

lemma sample_is_to_xml:
  "sample_entity_element (Vehicle i n m) = to_xml_element (Vehicle i n m)"
  "sample_entity_element (Pedestrian i n a) = to_xml_element (Pedestrian i n a)"
  "sample_entity_element (Entity i n) = to_xml_element (Entity i n)"
  by (simp_all add: Entity_to_xml_element_def)

subsection \<open>Reading a file that was written\<close>

lemma parse_document:
  "parse_entities_from_xml (Document root) = parse_loop (findall_desc ''Entity'' root) []"
  by (simp add: parse_entities_from_xml_def)




text \<open>
  The file \<open>XMLHandler.save\<close> writes for a LightStateAction, when its strings hold only
  characters XML allows, and what \<open>parse_entities_from_xml\<close> makes of it.
\<close>

lemma saved_light_state_action:
  "list_all xml_char n \<Longrightarrow> list_all xml_char t \<Longrightarrow>
   XMLHandler_save (LightStateAction (PInt k) (PStr n) (PStr t)) =
     Inr (Document (read_written
       (SubElement (Element ''Entities'' [] PNone [])
          (to_xml_element (LightStateAction (PInt k) (PStr n) (PStr t))))))"
  using keeps_attribute_D [OF str_int_keeps, of k]
  by (simp add: XMLHandler_save_def tree_write_def Entity_to_xml_element_def)


subsection \<open>The XML round trip\<close>




subsection \<open>The choice of the variant\<close>

text \<open>
  C4, as amended. \<open>parse_entity\<close> chooses between two variants. On an element with a
  \<open>Name\<close> child it returns a Vehicle when there is a \<open>Model\<close> child (whatever the other
  children), a Pedestrian when there is no \<open>Model\<close> child and there is an \<open>Age\<close> child,
  and it raises \<open>AttributeError\<close> when there is neither, also when the element has a
  \<open>LightStateAction\<close> child.
\<close>

theorem xml_dispatch:
  assumes "find_child ''Name'' el = Some nm"
  shows "(find_child ''Model'' el = Some m \<longrightarrow>
            parse_entity el = Inr (Vehicle (get_attrib el ''id'') (elem_text nm) (elem_text m)))
       \<and> (find_child ''Model'' el = None \<and> find_child ''Age'' el = Some a \<longrightarrow>
            parse_entity el = Inr (Pedestrian (get_attrib el ''id'') (elem_text nm) (elem_text a)))
       \<and> (find_child ''Model'' el = None \<and> find_child ''Age'' el = None \<longrightarrow>
            parse_entity el = Inl AttributeError)"
  using assms by (simp add: parse_entity_def)

text \<open>
  The theorem at three elements: one with \<open>Name\<close>, \<open>Age\<close> and \<open>Model\<close> children, one
  with \<open>Name\<close> and \<open>Age\<close>, one with \<open>Name\<close> and \<open>LightStateAction\<close>.
\<close>

theorem xml_dispatch_witness:
  "find_child ''Name'' (Element ''Entity'' [(''id'', PStr ''7'')] PNone
       [Element ''Name'' [] (PStr ''n'') [], Element ''Age'' [] (PStr ''4'') [],
        Element ''Model'' [] (PStr ''m'') []]) = Some (Element ''Name'' [] (PStr ''n'') [])
   \<and> find_child ''Model'' (Element ''Entity'' [(''id'', PStr ''7'')] PNone
       [Element ''Name'' [] (PStr ''n'') [], Element ''Age'' [] (PStr ''4'') [],
        Element ''Model'' [] (PStr ''m'') []]) = Some (Element ''Model'' [] (PStr ''m'') [])
   \<and> parse_entity (Element ''Entity'' [(''id'', PStr ''7'')] PNone
       [Element ''Name'' [] (PStr ''n'') [], Element ''Age'' [] (PStr ''4'') [],
        Element ''Model'' [] (PStr ''m'') []]) = Inr (Vehicle (PStr ''7'') (PStr ''n'') (PStr ''m''))
   \<and> find_child ''Model'' (Element ''Entity'' [(''id'', PStr ''7'')] PNone
       [Element ''Name'' [] (PStr ''n'') [], Element ''Age'' [] (PStr ''4'') []]) = None
   \<and> parse_entity (Element ''Entity'' [(''id'', PStr ''7'')] PNone
       [Element ''Name'' [] (PStr ''n'') [], Element ''Age'' [] (PStr ''4'') []])
       = Inr (Pedestrian (PStr ''7'') (PStr ''n'') (PStr ''4''))
   \<and> parse_entity (Element ''Entity'' [(''id'', PStr ''7'')] PNone
       [Element ''Name'' [] (PStr ''n'') [], Element ''LightStateAction'' [] PNone []])
       = Inl AttributeError"
  using xml_dispatch [of "Element ''Entity'' [(''id'', PStr ''7'')] PNone
       [Element ''Name'' [] (PStr ''n'') [], Element ''Age'' [] (PStr ''4'') [],
        Element ''Model'' [] (PStr ''m'') []]" "Element ''Name'' [] (PStr ''n'') []"
       "Element ''Model'' [] (PStr ''m'') []" "Element ''Age'' [] (PStr ''4'') []"]
    xml_dispatch [of "Element ''Entity'' [(''id'', PStr ''7'')] PNone
       [Element ''Name'' [] (PStr ''n'') [], Element ''Age'' [] (PStr ''4'') []]"
       "Element ''Name'' [] (PStr ''n'') []"
       "Element ''Model'' [] (PStr ''m'') []" "Element ''Age'' [] (PStr ''4'') []"]
    xml_dispatch [of "Element ''Entity'' [(''id'', PStr ''7'')] PNone
       [Element ''Name'' [] (PStr ''n'') [], Element ''LightStateAction'' [] PNone []]"
       "Element ''Name'' [] (PStr ''n'') []"
       "Element ''Model'' [] (PStr ''m'') []" "Element ''Age'' [] (PStr ''4'') []"]
  by (simp add: find_child_def get_attrib_def)

text \<open>
  C4, as stated, fails at the element that encodes
  \<open>LightStateAction(1, 'Light State Action', 'myLights')\<close>, the entity of
  \<open>five_principles.py\<close>: it has a \<open>LightStateAction\<close> child, and decoding it raises
  \<open>AttributeError\<close> instead of returning a LightStateAction.
\<close>

theorem xml_dispatch_counterexample:
  "find_child ''LightStateAction''
      (to_xml_element (LightStateAction (PInt 1) (PStr ''Light State Action'') (PStr ''myLights'')))
     \<noteq> None
   \<and> parse_entity
      (to_xml_element (LightStateAction (PInt 1) (PStr ''Light State Action'') (PStr ''myLights'')))
     = Inl AttributeError"
  by (simp add: parse_entity_def find_child_def get_attrib_def Entity_to_xml_element_def)

section \<open>Errors of the decoders\<close>

text \<open>
  C5, as amended. Reading a row that does not have three fields raises \<open>ValueError\<close>, and
  so does reading a file with such a row after its header. Decoding an element without a
  \<open>Name\<close> child, or with neither a \<open>Model\<close> nor an \<open>Age\<close> child, raises
  \<open>AttributeError\<close>, and so does parsing a document with such an \<open>Entity\<close> element.
  The exception is the result of the call. No exception is raised on a file whose rows
  have three fields, the third either failing \<open>isdigit\<close> or made of decimal digits, nor on
  an element with a \<open>Name\<close> child and a \<open>Model\<close> or \<open>Age\<close> child.
\<close>

theorem decoding_errors:
  "(length row \<noteq> 3 \<longrightarrow> read_row row = Inl ValueError)
   \<and> ((\<exists>r \<in> set rows. length r \<noteq> 3) \<longrightarrow>
        read_entities_from_csv (header # rows) = Inl ValueError)
   \<and> (find_child ''Name'' el = None
        \<or> (find_child ''Model'' el = None \<and> find_child ''Age'' el = None) \<longrightarrow>
        parse_entity el = Inl AttributeError)
   \<and> ((\<exists>x \<in> set (findall_desc ''Entity'' root). find_child ''Name'' x = None
           \<or> (find_child ''Model'' x = None \<and> find_child ''Age'' x = None)) \<longrightarrow>
        parse_entities_from_xml (Document root) = Inl AttributeError)
   \<and> (list_all (\<lambda>r. length r = 3 \<and> (\<not> isdigit (r ! 2) \<or> isdecimal (r ! 2))) rows2 \<longrightarrow>
        (\<exists>es. read_entities_from_csv (header # rows2) = Inr es \<and> length es = length rows2))
   \<and> (find_child ''Name'' el2 \<noteq> None
        \<and> (find_child ''Model'' el2 \<noteq> None \<or> find_child ''Age'' el2 \<noteq> None) \<longrightarrow>
        (\<exists>e. parse_entity el2 = Inr e))"
proof (intro conjI impI)
  assume "length row \<noteq> 3"
  then show "read_row row = Inl ValueError" by (rule read_row_length)
next
  assume "\<exists>r \<in> set rows. length r \<noteq> 3"
  then obtain r where r: "r \<in> set rows" "length r \<noteq> 3"
    by blast
  then have "read_row (map translate_newlines r) = Inl ValueError"
    by (simp add: read_row_length)
  with r have "\<exists>x \<in> set (map (map translate_newlines) rows). read_row x = Inl ValueError"
    by auto
  then show "read_entities_from_csv (header # rows) = Inl ValueError"
    by (simp only: read_file read_rows_bad)
next
  assume "find_child ''Name'' el = None
        \<or> (find_child ''Model'' el = None \<and> find_child ''Age'' el = None)"
  then show "parse_entity el = Inl AttributeError" by (rule parse_entity_missing)
next
  assume "\<exists>x \<in> set (findall_desc ''Entity'' root). find_child ''Name'' x = None
           \<or> (find_child ''Model'' x = None \<and> find_child ''Age'' x = None)"
  then have "\<exists>x \<in> set (findall_desc ''Entity'' root). parse_entity x = Inl AttributeError"
    using parse_entity_missing by blast
  then show "parse_entities_from_xml (Document root) = Inl AttributeError"
    by (simp add: parse_document parse_loop_bad)
next
  assume "list_all (\<lambda>r. length r = 3 \<and> (\<not> isdigit (r ! 2) \<or> isdecimal (r ! 2))) rows2"
  then have "list_all (\<lambda>r. length r = 3 \<and> (\<not> isdigit (r ! 2) \<or> isdecimal (r ! 2)))
      (map (map translate_newlines) rows2)"
    by (auto simp: list_all_iff isdigit_translate translate_keeps [OF isdecimal_keeps])
  from read_rows_good [OF this, of "[]"]
  show "\<exists>es. read_entities_from_csv (header # rows2) = Inr es \<and> length es = length rows2"
    by (simp add: read_file)
next
  assume "find_child ''Name'' el2 \<noteq> None
        \<and> (find_child ''Model'' el2 \<noteq> None \<or> find_child ''Age'' el2 \<noteq> None)"
  then show "\<exists>e. parse_entity el2 = Inr e"
    using parse_entity_present by blast
qed

text \<open>
  The theorem at a row of two fields, a file with a row of one field, an \<open>Entity\<close> element
  without children, the document that holds it, a file of two rows of three fields and
  the element of a Vehicle.
\<close>

theorem decoding_errors_witness:
  "length [''1'', ''X''] \<noteq> 3
   \<and> read_row [''1'', ''X''] = Inl ValueError
   \<and> read_entities_from_csv
        [[''Entity ID'', ''Name'', ''Model/Age''], [''1'', ''Car A'', ''Model X''], [''2'']]
       = Inl ValueError
   \<and> find_child ''Name'' (Element ''Entity'' [(''id'', PStr ''1'')] PNone []) = None
   \<and> parse_entity (Element ''Entity'' [(''id'', PStr ''1'')] PNone []) = Inl AttributeError
   \<and> parse_entities_from_xml
        (Document
           (Element ''Entities'' [] PNone [Element ''Entity'' [(''id'', PStr ''1'')] PNone []]))
       = Inl AttributeError
   \<and> read_entities_from_csv
        [[''Entity ID'', ''Name'', ''Model/Age''], [''1'', ''Car A'', ''Model X''],
         [''2'', ''John Doe'', ''30'']]
       = Inr [Vehicle (PStr ''1'') (PStr ''Car A'') (PStr ''Model X''),
              Pedestrian (PStr ''2'') (PStr ''John Doe'') (PInt 30)]
   \<and> parse_entity (to_xml_element (Vehicle (PStr ''1'') (PStr ''Car A'') (PStr ''Model X'')))
       = Inr (Vehicle (PStr ''1'') (PStr ''Car A'') (PStr ''Model X''))"
  using decoding_errors [of "[''1'', ''X'']" "[[''1'', ''Car A'', ''Model X''], [''2'']]"
      "[''Entity ID'', ''Name'', ''Model/Age'']"
      "Element ''Entity'' [(''id'', PStr ''1'')] PNone []"
      "Element ''Entities'' [] PNone [Element ''Entity'' [(''id'', PStr ''1'')] PNone []]"
      "[[''1'', ''Car A'', ''Model X''], [''2'', ''John Doe'', ''30'']]"
      "to_xml_element (Vehicle (PStr ''1'') (PStr ''Car A'') (PStr ''Model X''))"]
  by (simp add: not_isdigit_Model_X isdecimal_30 isdecimal_isdigit py_int_def decimal_value_30
      find_child_def findall_desc_def parse_entity_def get_attrib_def Entity_to_xml_element_def
      read_file parse_document)

text \<open>
  C5, as stated, fails at the document \<open>XMLHandler.save\<close> of \<open>five_principles.py\<close> writes
  for \<open>LightStateAction(1, 'Light State Action', 'myLights')\<close>. Its one \<open>Entity\<close> element
  has the \<open>id\<close> attribute, a \<open>Name\<close> child and a \<open>LightStateAction\<close> child, as the
  format asks, and \<open>parse_entities_from_xml\<close> raises \<open>AttributeError\<close> on it.
\<close>

theorem decoding_errors_counterexample:
  "XMLHandler_save (LightStateAction (PInt 1) (PStr ''Light State Action'') (PStr ''myLights''))
     = Inr (Document
         (SubElement (Element ''Entities'' [] PNone [])
            (to_xml_element
               (LightStateAction (PInt 1) (PStr ''Light State Action'') (PStr ''myLights'')))))
   \<and> findall_desc ''Entity''
         (SubElement (Element ''Entities'' [] PNone [])
            (to_xml_element
               (LightStateAction (PInt 1) (PStr ''Light State Action'') (PStr ''myLights''))))
     = [to_xml_element (LightStateAction (PInt 1) (PStr ''Light State Action'') (PStr ''myLights''))]
   \<and> parse_entities_from_xml
         (Document
            (SubElement (Element ''Entities'' [] PNone [])
               (to_xml_element
                  (LightStateAction (PInt 1) (PStr ''Light State Action'') (PStr ''myLights'')))))
     = Inl AttributeError"
  by code_simp

section \<open>The parser of the LightStateAction script\<close>

lemma parse_xml_loop_all:
  "parse_xml_loop actions acc = Inr es \<Longrightarrow>
   list_all (\<lambda>x. entity_id x = PInt 1 \<and> name x = PStr ''LightStateAction'') acc \<Longrightarrow>
   list_all (\<lambda>x. entity_id x = PInt 1 \<and> name x = PStr ''LightStateAction'') es"
proof (induction actions arbitrary: acc)
  case Nil
  then show ?case by simp
next
  case (Cons a actions)
  then show ?case
    by (auto simp: parse_action_def split: sum.splits option.splits)
qed

text \<open>No element of a document written by \<open>XMLHandler.save\<close> has the tag \<open>PrivateAction\<close>.\<close>

lemma no_private_action:
  "findall_desc ''PrivateAction''
     (read_written (SubElement (Element ''Entities'' [] PNone []) (to_xml_element e))) = []"
  "findall_desc ''PrivateAction''
     (Element ''Entities'' [] PNone [read_written (to_xml_element e)]) = []"
  by (cases e; simp add: findall_desc_def Entity_to_xml_element_def)+

lemma saved_cases:
  "XMLHandler_save e = Inl TypeError \<or> XMLHandler_save e = Inr Malformed
   \<or> XMLHandler_save e =
       Inr (Document
         (read_written (SubElement (Element ''Entities'' [] PNone []) (to_xml_element e))))"
  by (simp add: XMLHandler_save_def tree_write_def)

lemma parse_xml_saved_document:
  "XMLHandler_save e = Inr (Document root) \<Longrightarrow> parse_xml (Document root) = Inr []"
  using saved_cases [of e] by (auto simp: parse_xml_def no_private_action)

text \<open>
  C10, as amended. \<open>parse_xml\<close> returns no entity from a file written by
  \<open>XMLHandler.save\<close>: it returns the empty list when the file is well-formed XML, as it
  is when the entity has an integer identifier and its name and light type are strings
  of characters XML allows, and it raises \<open>ParseError\<close> when the file is not well-formed.
  On any file, every entity \<open>parse_xml\<close> returns has the identifier \<open>1\<close> and the name
  \<open>LightStateAction\<close>.
\<close>

theorem parse_xml_results:
  "(saved_parse_xml e = Inr [] \<or> saved_parse_xml e = Inl ParseError
      \<or> saved_parse_xml e = Inl TypeError)
   \<and> (XMLHandler_save e = Inr (Document root) \<longrightarrow> parse_xml (Document root) = Inr [])
   \<and> (list_all xml_char n \<and> list_all xml_char t \<longrightarrow>
        saved_parse_xml (LightStateAction (PInt k) (PStr n) (PStr t)) = Inr [])
   \<and> (parse_xml file = Inr es \<longrightarrow>
        list_all (\<lambda>x. entity_id x = PInt 1 \<and> name x = PStr ''LightStateAction'') es)"
proof (intro conjI impI)
  show "saved_parse_xml e = Inr [] \<or> saved_parse_xml e = Inl ParseError
      \<or> saved_parse_xml e = Inl TypeError"
    using saved_cases [of e]
    by (auto simp: saved_parse_xml_def parse_xml_def no_private_action)
next
  assume "XMLHandler_save e = Inr (Document root)"
  then show "parse_xml (Document root) = Inr []"
    by (rule parse_xml_saved_document)
next
  assume "list_all xml_char n \<and> list_all xml_char t"
  then have "\<exists>root. XMLHandler_save (LightStateAction (PInt k) (PStr n) (PStr t))
      = Inr (Document root)"
    using saved_light_state_action [of n t k] by blast
  then obtain root where
    r: "XMLHandler_save (LightStateAction (PInt k) (PStr n) (PStr t)) = Inr (Document root)"
    by blast
  then have "parse_xml (Document root) = Inr []"
    by (rule parse_xml_saved_document)
  with r show "saved_parse_xml (LightStateAction (PInt k) (PStr n) (PStr t)) = Inr []"
    by (simp add: saved_parse_xml_def)
next
  assume "parse_xml file = Inr es"
  then obtain root where "parse_xml_loop (findall_desc ''PrivateAction'' root) [] = Inr es"
    by (cases "file") (simp_all add: parse_xml_def)
  from parse_xml_loop_all [OF this]
  show "list_all (\<lambda>x. entity_id x = PInt 1 \<and> name x = PStr ''LightStateAction'') es"
    by simp
qed

text \<open>
  The theorem at the entity of the script and at a document with two \<open>PrivateAction\<close>
  elements, the second of which carries an identifier and a name of its own.
\<close>

theorem parse_xml_results_witness:
  "list_all xml_char ''Light State Action'' \<and> list_all xml_char ''myLights''
   \<and> XMLHandler_save (LightStateAction (PInt 1) (PStr ''Light State Action'') (PStr ''myLights''))
       = Inr (Document
           (SubElement (Element ''Entities'' [] PNone [])
              (to_xml_element
                 (LightStateAction (PInt 1) (PStr ''Light State Action'') (PStr ''myLights'')))))
   \<and> parse_xml
        (Document
           (SubElement (Element ''Entities'' [] PNone [])
              (to_xml_element
                 (LightStateAction (PInt 1) (PStr ''Light State Action'') (PStr ''myLights'')))))
       = Inr []
   \<and> saved_parse_xml
        (LightStateAction (PInt 1) (PStr ''Light State Action'') (PStr ''myLights'')) = Inr []
   \<and> parse_xml (Document (Element ''Story'' [] PNone
      [Element ''PrivateAction'' [] PNone
         [Element ''UserDefinedLight'' [(''userDefinedLightType'', PStr ''x'')] PNone []],
       Element ''Act'' [] PNone
         [Element ''PrivateAction'' [(''id'', PStr ''9'')] PNone
            [Element ''Name'' [] (PStr ''other'') [],
             Element ''LightType'' [] PNone [Element ''UserDefinedLight'' [] PNone []]]]]))
     = Inr [LightStateAction (PInt 1) (PStr ''LightStateAction'') (PStr ''x''),
            LightStateAction (PInt 1) (PStr ''LightStateAction'') PNone]
   \<and> list_all (\<lambda>x. entity_id x = PInt 1 \<and> name x = PStr ''LightStateAction'')
        [LightStateAction (PInt 1) (PStr ''LightStateAction'') (PStr ''x''),
         LightStateAction (PInt 1) (PStr ''LightStateAction'') PNone]"
proof -
  have saved:
    "XMLHandler_save (LightStateAction (PInt 1) (PStr ''Light State Action'') (PStr ''myLights''))
       = Inr (Document
           (SubElement (Element ''Entities'' [] PNone [])
              (to_xml_element
                 (LightStateAction (PInt 1) (PStr ''Light State Action'') (PStr ''myLights'')))))"
    by code_simp
  have parsed:
    "parse_xml (Document (Element ''Story'' [] PNone
      [Element ''PrivateAction'' [] PNone
         [Element ''UserDefinedLight'' [(''userDefinedLightType'', PStr ''x'')] PNone []],
       Element ''Act'' [] PNone
         [Element ''PrivateAction'' [(''id'', PStr ''9'')] PNone
            [Element ''Name'' [] (PStr ''other'') [],
             Element ''LightType'' [] PNone [Element ''UserDefinedLight'' [] PNone []]]]]))
     = Inr [LightStateAction (PInt 1) (PStr ''LightStateAction'') (PStr ''x''),
            LightStateAction (PInt 1) (PStr ''LightStateAction'') PNone]"
    by code_simp
  have chars: "list_all xml_char ''Light State Action'' \<and> list_all xml_char ''myLights''"
    by (simp add: xml_char_def)
  show ?thesis
    using parse_xml_results [of
        "LightStateAction (PInt 1) (PStr ''Light State Action'') (PStr ''myLights'')"
        "SubElement (Element ''Entities'' [] PNone [])
              (to_xml_element
                 (LightStateAction (PInt 1) (PStr ''Light State Action'') (PStr ''myLights'')))"
        "''Light State Action''" "''myLights''" 1
        "Document (Element ''Story'' [] PNone
      [Element ''PrivateAction'' [] PNone
         [Element ''UserDefinedLight'' [(''userDefinedLightType'', PStr ''x'')] PNone []],
       Element ''Act'' [] PNone
         [Element ''PrivateAction'' [(''id'', PStr ''9'')] PNone
            [Element ''Name'' [] (PStr ''other'') [],
             Element ''LightType'' [] PNone [Element ''UserDefinedLight'' [] PNone []]]]])"
        "[LightStateAction (PInt 1) (PStr ''LightStateAction'') (PStr ''x''),
          LightStateAction (PInt 1) (PStr ''LightStateAction'') PNone]"]
      saved parsed chars
    by simp
qed

text \<open>
  C10, as stated, fails at a LightStateAction whose name holds the character U+000B:
  \<open>XMLHandler.save\<close> writes the file, the file is not well-formed XML, and \<open>parse_xml\<close>
  raises \<open>ParseError\<close> instead of returning the empty list.
\<close>

theorem parse_xml_results_counterexample:
  "XMLHandler_save
      (LightStateAction (PInt 1) (PStr [CHR ''a'', CHR 0x0B, CHR ''b'']) (PStr ''myLights''))
     = Inr Malformed
   \<and> parse_xml Malformed = Inl ParseError
   \<and> saved_parse_xml
      (LightStateAction (PInt 1) (PStr [CHR ''a'', CHR 0x0B, CHR ''b'']) (PStr ''myLights''))
     \<noteq> Inr []"
  by code_simp

section \<open>The comparator\<close>

lemma inner_loop:
  "foldl (\<lambda>out x. if entity_id c = entity_id x \<and> name c = name x
                     then out @ [match_line c] else out) out xs =
   out @ map (\<lambda>(a, b). match_line a)
           (filter (\<lambda>(a, b). entity_id a = entity_id b \<and> name a = name b) (map (Pair c) xs))"
  by (induction xs arbitrary: out) simp_all

lemma outer_loop:
  "foldl (\<lambda>out c.
        foldl (\<lambda>out x. if entity_id c = entity_id x \<and> name c = name x
                          then out @ [match_line c] else out) out xs) out cs =
   out @ map (\<lambda>(a, b). match_line a)
           (filter (\<lambda>(a, b). entity_id a = entity_id b \<and> name a = name b) (List.product cs xs))"
  by (induction cs arbitrary: out) (simp_all add: inner_loop)

lemma compare_as_filter:
  "compare_entities A B = map (\<lambda>(a, b). match_line a)
           (filter (\<lambda>(a, b). entity_id a = entity_id b \<and> name a = name b) (List.product A B))"
  by (simp add: compare_entities_def outer_loop)

text \<open>
  C7. The comparator prints one line for each pair \<open>(a, b)\<close>, \<open>a\<close> from the first
  collection and \<open>b\<close> from the second, with equal identifiers and equal names, and nothing
  else: no pair is dropped as a repetition. On two collections of one entity each it
  prints one line when identifier and name agree and none otherwise.
\<close>

theorem comparator_matches:
  "compare_entities A B =
     map (\<lambda>(a, b). match_line a)
       (filter (\<lambda>(a, b). entity_id a = entity_id b \<and> name a = name b) (List.product A B))
   \<and> length (compare_entities [a] [b]) =
       (if entity_id a = entity_id b \<and> name a = name b then 1 else 0)"
  by (simp add: compare_as_filter)

text \<open>
  Identifier 1 and name \<open>a\<close> on both sides give one match; identifier 1 with the names
  \<open>a\<close> and \<open>b\<close> gives none.
\<close>

theorem comparator_matches_witness:
  "compare_entities [Vehicle (PInt 1) (PStr ''a'') (PStr ''m'')]
      [Pedestrian (PInt 1) (PStr ''a'') (PInt 3)] = [''Match found: a with ID 1'']
   \<and> length (compare_entities [Vehicle (PInt 1) (PStr ''a'') (PStr ''m'')]
      [Pedestrian (PInt 1) (PStr ''a'') (PInt 3)]) = 1
   \<and> length (compare_entities [Vehicle (PInt 1) (PStr ''a'') (PStr ''m'')]
      [Vehicle (PInt 1) (PStr ''b'') (PStr ''m'')]) = 0"
  using comparator_matches [of "[Vehicle (PInt 1) (PStr ''a'') (PStr ''m'')]"
      "[Pedestrian (PInt 1) (PStr ''a'') (PInt 3)]"
      "Vehicle (PInt 1) (PStr ''a'') (PStr ''m'')" "Pedestrian (PInt 1) (PStr ''a'') (PInt 3)"]
    comparator_matches [of "[]" "[]"
      "Vehicle (PInt 1) (PStr ''a'') (PStr ''m'')" "Vehicle (PInt 1) (PStr ''b'') (PStr ''m'')"]
  by (simp add: match_line_def str_int_examples)

section \<open>The run of \<open>principes_1_2.py\<close>\<close>

text \<open>
  What the script computes from its list: the entities read from the CSV file have string
  identifiers and integer ages, those read from the XML file have string identifiers and
  string ages, and the comparator, which looks at identifier and name only, finds the
  four matches.
\<close>

lemma run_csv_entities:
  "csv_entities =
     Inr [Vehicle (PStr ''1'') (PStr ''Car A'') (PStr ''Model X''),
          Pedestrian (PStr ''2'') (PStr ''John Doe'') (PInt 30),
          Vehicle (PStr ''3'') (PStr ''Car B'') (PStr ''Model Y''),
          Pedestrian (PStr ''4'') (PStr ''Jane Doe'') (PInt 25)]"
  by code_simp

lemma run_xml_entities:
  "xml_entities =
     Inr [Vehicle (PStr ''1'') (PStr ''Car A'') (PStr ''Model X''),
          Pedestrian (PStr ''2'') (PStr ''John Doe'') (PStr ''30''),
          Vehicle (PStr ''3'') (PStr ''Car B'') (PStr ''Model Y''),
          Pedestrian (PStr ''4'') (PStr ''Jane Doe'') (PStr ''25'')]"
  by code_simp

lemma run_compare_entities:
  "(case (csv_entities, xml_entities) of
      (Inr c, Inr x) \<Rightarrow> compare_entities c x
    | _ \<Rightarrow> []) =
     [''Match found: Car A with ID 1'', ''Match found: John Doe with ID 2'',
      ''Match found: Car B with ID 3'', ''Match found: Jane Doe with ID 4'']"
  by code_simp

end
